theory Spec2Isabelle
  imports Main "HOL-Library.Word" "HOL-Library.Multiset"
begin

section \<open>Data model (include/ts/tree\_sitter.hpp)\<close>

text \<open>
  The batch edit of a syntax tree and its source text: \<open>Tree::edit\<close> and the helpers of
  \<open>edit_helper.cpp\<close>, with the comparison operators of \<open>tree_sitter.cpp\<close> they use.

  All coordinates are \<open>std::uint32_t\<close>: 32-bit words, unsigned comparison, arithmetic
  modulo \<open>2 ^ 32\<close>. Field names follow the source; \<open>end\<close>, \<open>range\<close> and \<open>source_\<close>
  are not names in Isabelle and carry a prime instead. Functions whose names begin with
  an underscore in the source lose it here.
\<close>

type_synonym u32 = "32 word"

record Point =
  row :: u32
  column :: u32

record Location =
  point :: Point
  byte :: u32

record Range =
  start :: Location
  end' :: Location

record Edit =
  range' :: Range
  replacement :: string

text \<open>The field \<open>replacement\<close> of \<open>AppliedEdit\<close> is \<open>applied_replacement\<close> here.\<close>

record AppliedEdit =
  before :: Range
  after :: Range
  old_source :: string
  applied_replacement :: string

record EditResult =
  changed_ranges :: "Range list"
  applied_edits :: "AppliedEdit list"

text \<open>The exceptions that \<open>Tree::edit\<close> can raise; \<open>OutOfRange\<close> is the
  \<open>std::out_of_range\<close> of \<open>std::string::substr\<close>. \<open>UndefinedBehaviour\<close> is no exception:
  it stands for a run of \<open>std::sort\<close> that may read outside the vector, after which
  nothing is known.\<close>

datatype error =
  ZeroSizedEditException
  | MultilineEditException
  | OverlappingEditException
  | ParseFailureException
  | OutOfRange
  | UndefinedBehaviour

section \<open>Comparison operators (src/tree\_sitter.cpp)\<close>

text \<open>\<open>operator==\<close> on \<open>Point\<close>, \<open>Location\<close> and \<open>Range\<close> compares every field.\<close>

definition Point_eq :: "Point \<Rightarrow> Point \<Rightarrow> bool" where
  "Point_eq lhs rhs = (row lhs = row rhs \<and> column lhs = column rhs)"

definition Location_eq :: "Location \<Rightarrow> Location \<Rightarrow> bool" where
  "Location_eq lhs rhs = (Point_eq (point lhs) (point rhs) \<and> byte lhs = byte rhs)"

text \<open>The order on \<open>Location\<close> looks at the byte offset only.\<close>

definition Location_less :: "Location \<Rightarrow> Location \<Rightarrow> bool" where
  "Location_less lhs rhs = (byte lhs < byte rhs)"

definition Location_greater :: "Location \<Rightarrow> Location \<Rightarrow> bool" where
  "Location_greater lhs rhs = (byte lhs > byte rhs)"

text \<open>
  \<open>Range::overlaps\<close> calls itself with the arguments exchanged when
  \<open>this->start > other.start\<close>; the exchanged call does not recurse again.
\<close>

function overlaps :: "Range \<Rightarrow> Range \<Rightarrow> bool" where
  "overlaps this other =
     (if Location_greater (start this) (start other) then overlaps other this
      else Location_greater (end' this) (start other))"
  by pat_completeness auto
termination
  by (relation "measure (\<lambda>(this, other). if byte (start this) > byte (start other) then 1 else 0)")
     (auto simp: Location_greater_def)

declare overlaps.simps [simp del]

section \<open>The parsing engine\<close>

text \<open>
  The Tree-sitter C library is outside the repository. Its three entry points used by
  \<open>Tree::edit\<close> are parameters; \<open>'t\<close> is the state of a \<open>TSTree\<close>, a pointer to one is
  \<open>'t option\<close> (\<open>None\<close> for \<open>nullptr\<close>).
\<close>

record TSInputEdit =
  start_byte :: u32
  old_end_byte :: u32
  new_end_byte :: u32
  start_point :: Point
  old_end_point :: Point
  new_end_point :: Point

record TSRange =
  ts_start_point :: Point
  ts_end_point :: Point
  ts_start_byte :: u32
  ts_end_byte :: u32

record 't engine =
  ts_tree_edit :: "'t option \<Rightarrow> TSInputEdit \<Rightarrow> 't option"
  ts_parser_parse_string :: "'t option \<Rightarrow> string \<Rightarrow> 't option"
  ts_tree_get_changed_ranges :: "'t option \<Rightarrow> 't option \<Rightarrow> TSRange list"

text \<open>A \<open>Tree\<close> owns a \<open>TSTree\<close> through a \<open>unique_ptr\<close> and holds a copy of the source.\<close>

record 't Tree =
  tree :: "'t option"
  source' :: string

text \<open>\<open>Parser::parse_string\<close>: a null result of the engine is \<open>ParseFailureException\<close>.\<close>

definition parse_string :: "'t engine \<Rightarrow> 't option \<Rightarrow> string \<Rightarrow> error + 't Tree" where
  "parse_string eng old_tree source =
     (case ts_parser_parse_string eng old_tree source of
        None \<Rightarrow> Inl ParseFailureException
      | Some t \<Rightarrow> Inr \<lparr>tree = Some t, source' = source\<rparr>)"

section \<open>Applying one edit (src/edit\_helper.cpp)\<close>

text \<open>
  \<open>_apply_edit\<close>. \<open>old_size\<close> is the \<open>uint32_t\<close> difference of the byte offsets read as
  a (64-bit) \<open>long\<close>; \<open>end_byte_diff\<close> is a \<open>long\<close>, and the new end column and byte are
  cast back to \<open>uint32_t\<close>. \<open>substr\<close> raises when the start lies behind the end of the
  string and otherwise stops at the end of the string, as \<open>replace\<close> does.
\<close>

definition apply_edit ::
  "'t engine \<Rightarrow> Edit \<Rightarrow> 't option \<Rightarrow> string \<Rightarrow> error + (AppliedEdit \<times> 't option \<times> string)" where
  "apply_edit eng edit ts_tree source =
     (let old_size = unat (byte (end' (range' edit)) - byte (start (range' edit)));
          pos = unat (byte (start (range' edit)))
      in if pos > length source then Inl OutOfRange
         else
           let old_text = take old_size (drop pos source);
               new_text = take pos source @ replacement edit @ drop (pos + old_size) source;
               end_byte_diff = int (length (replacement edit)) - int old_size;
               before_r = range' edit;
               new_column = (word_of_int (uint (column (point (end' before_r))) + end_byte_diff) :: u32);
               new_byte = (word_of_int (uint (byte (end' before_r)) + end_byte_diff) :: u32);
               after_r = \<lparr>start = start (range' edit),
                          end' = \<lparr>point = \<lparr>row = row (point (end' (range' edit))),
                                           column = new_column\<rparr>,
                                  byte = new_byte\<rparr>\<rparr>;
               input_edit = \<lparr>start_byte = byte (start before_r),
                             old_end_byte = byte (end' before_r),
                             new_end_byte = byte (end' after_r),
                             start_point = \<lparr>row = row (point (start before_r)),
                                            column = column (point (start before_r))\<rparr>,
                             old_end_point = \<lparr>row = row (point (end' before_r)),
                                              column = column (point (end' before_r))\<rparr>,
                             new_end_point = \<lparr>row = row (point (end' after_r)),
                                              column = column (point (end' after_r))\<rparr>\<rparr>;
               ts_tree1 = ts_tree_edit eng ts_tree input_edit
           in Inr (\<lparr>before = before_r, after = after_r, old_source = old_text,
                    applied_replacement = replacement edit\<rparr>, ts_tree1, new_text))"

text \<open>\<open>_point\<close>, \<open>_location\<close> and \<open>_range\<close> copy what the engine reports, and
  \<open>_get_changed_ranges\<close> maps \<open>_range\<close> over the engine's array.\<close>

definition point_of :: "Point \<Rightarrow> Point" where
  "point_of p = \<lparr>row = row p, column = column p\<rparr>"

definition location_of :: "Point \<Rightarrow> u32 \<Rightarrow> Location" where
  "location_of p b = \<lparr>point = point_of p, byte = b\<rparr>"

definition range_of :: "TSRange \<Rightarrow> Range" where
  "range_of r = \<lparr>start = location_of (ts_start_point r) (ts_start_byte r),
                 end' = location_of (ts_end_point r) (ts_end_byte r)\<rparr>"

definition get_changed_ranges :: "'t engine \<Rightarrow> 't option \<Rightarrow> 't option \<Rightarrow> Range list" where
  "get_changed_ranges eng old_tree new_tree =
     map range_of (ts_tree_get_changed_ranges eng old_tree new_tree)"

section \<open>Validation\<close>

definition forbid_zero_sized_edit :: "Edit \<Rightarrow> error + unit" where
  "forbid_zero_sized_edit edit =
     (if Location_eq (start (range' edit)) (end' (range' edit))
      then Inl ZeroSizedEditException else Inr ())"

definition forbid_multiline_edit :: "Edit \<Rightarrow> error + unit" where
  "forbid_multiline_edit edit =
     (if row (point (start (range' edit))) \<noteq> row (point (end' (range' edit)))
         \<or> CHR 0x0A \<in> set (replacement edit)
      then Inl MultilineEditException else Inr ())"

text \<open>The inner loop of \<open>_check_edits\<close>: \<open>j\<close> counts the edits already passed.\<close>

fun check_overlaps :: "nat \<Rightarrow> Edit \<Rightarrow> nat \<Rightarrow> Edit list \<Rightarrow> error + unit" where
  "check_overlaps i edit1 j [] = Inr ()"
| "check_overlaps i edit1 j (edit2 # rest) =
     (if i = j then check_overlaps i edit1 (Suc j) rest
      else if overlaps (range' edit1) (range' edit2) then Inl OverlappingEditException
      else check_overlaps i edit1 (Suc j) rest)"

text \<open>The outer loop: \<open>i\<close> counts the edits already passed, \<open>edits\<close> is the whole batch.\<close>

fun check_edits_from :: "Edit list \<Rightarrow> nat \<Rightarrow> Edit list \<Rightarrow> error + unit" where
  "check_edits_from edits i [] = Inr ()"
| "check_edits_from edits i (edit1 # rest) =
     (case forbid_zero_sized_edit edit1 of
        Inl e \<Rightarrow> Inl e
      | Inr _ \<Rightarrow>
         (case forbid_multiline_edit edit1 of
            Inl e \<Rightarrow> Inl e
          | Inr _ \<Rightarrow>
             (case check_overlaps i edit1 0 edits of
                Inl e \<Rightarrow> Inl e
              | Inr _ \<Rightarrow> check_edits_from edits (Suc i) rest)))"

definition check_edits :: "Edit list \<Rightarrow> error + unit" where
  "check_edits edits = check_edits_from edits 0 edits"

section \<open>Coordinate adjustment\<close>

text \<open>
  The two \<open>int\<close> fields are kept as their 32-bit two's complement patterns: the
  conversion of a \<open>uint32_t\<close> difference to \<open>int\<close> and the \<open>+=\<close> of an \<open>int\<close> to a
  \<open>uint32_t\<close> both leave the bits as they are.
\<close>

record Adjustment =
  last_point :: Point
  last_width_change :: u32
  cumulative_byte_change :: u32

definition adjust_edit :: "Edit \<Rightarrow> Adjustment \<Rightarrow> Edit" where
  "adjust_edit edit adjustment =
     (let r = range' edit;
          r1 = (if last_width_change adjustment \<noteq> 0
                   \<and> row (last_point adjustment) = row (point (start r))
                then \<lparr>start = (start r)\<lparr>point := (point (start r))
                                \<lparr>column := column (point (start r)) + last_width_change adjustment\<rparr>\<rparr>,
                      end' = (end' r)\<lparr>point := (point (end' r))
                                \<lparr>column := column (point (end' r)) + last_width_change adjustment\<rparr>\<rparr>\<rparr>
                else r);
          r2 = \<lparr>start = (start r1)\<lparr>byte := byte (start r1) + cumulative_byte_change adjustment\<rparr>,
                 end' = (end' r1)\<lparr>byte := byte (end' r1) + cumulative_byte_change adjustment\<rparr>\<rparr>
      in edit\<lparr>range' := r2\<rparr>)"

definition update_adjustment :: "Adjustment \<Rightarrow> AppliedEdit \<Rightarrow> Point \<Rightarrow> Adjustment" where
  "update_adjustment adjustment applied_edit last_pt =
     (let before_width = column (point (end' (before applied_edit)))
                           - column (point (start (before applied_edit)));
          after_width = column (point (end' (after applied_edit)))
                          - column (point (start (after applied_edit)));
          byte_change = byte (end' (after applied_edit)) - byte (end' (before applied_edit))
      in \<lparr>last_point = last_pt,
          last_width_change = after_width - before_width,
          cumulative_byte_change = cumulative_byte_change adjustment + byte_change\<rparr>)"

text \<open>The loop of \<open>_apply_all_edits\<close>, with the adjustment, the source and the tree threaded.\<close>

fun apply_all_edits_from ::
  "'t engine \<Rightarrow> Edit list \<Rightarrow> Adjustment \<Rightarrow> string \<Rightarrow> 't option
     \<Rightarrow> error + (AppliedEdit list \<times> string \<times> 't option)" where
  "apply_all_edits_from eng [] adjustment new_source old_tree = Inr ([], new_source, old_tree)"
| "apply_all_edits_from eng (edit # rest) adjustment new_source old_tree =
     (let range_before_adjustments = range' edit;
          edit1 = adjust_edit edit adjustment
      in case apply_edit eng edit1 old_tree new_source of
           Inl e \<Rightarrow> Inl e
         | Inr (applied, old_tree1, new_source1) \<Rightarrow>
             (let applied_edit = applied\<lparr>before := range_before_adjustments\<rparr>;
                  adjustment1 = update_adjustment adjustment applied_edit
                                  (point (end' (range' edit1)))
              in case apply_all_edits_from eng rest adjustment1 new_source1 old_tree1 of
                   Inl e \<Rightarrow> Inl e
                 | Inr (applied_rest, new_source2, old_tree2) \<Rightarrow>
                     Inr (applied_edit # applied_rest, new_source2, old_tree2)))"

text \<open>\<open>Adjustment adjustment{}\<close> is zero-initialised.\<close>

definition apply_all_edits ::
  "'t engine \<Rightarrow> Edit list \<Rightarrow> string \<Rightarrow> 't option
     \<Rightarrow> error + (AppliedEdit list \<times> string \<times> 't option)" where
  "apply_all_edits eng edits new_source old_tree =
     apply_all_edits_from eng edits
       \<lparr>last_point = \<lparr>row = 0, column = 0\<rparr>, last_width_change = 0, cumulative_byte_change = 0\<rparr>
       new_source old_tree"

section \<open>The batch\<close>

text \<open>
  \<open>std::sort\<close> with the comparator \<open>edit1.range.start.byte <= edit2.range.start.byte\<close>,
  which is not a strict order. On up to 16 elements \<open>std::sort\<close> (libstdc++) is an
  insertion sort: it takes the edits one by one from the front and moves each to the
  left past every edit it is \<open>\<le>\<close> to, so in front of the first sorted edit whose start
  byte is not smaller (\<open>insort_key\<close>). Edits with equal start bytes therefore come out
  in the reverse of the order they came in. On more than 16 elements \<open>std::sort\<close>
  partitions first, with scans that rely on a strict order: with pairwise different
  start bytes the comparator acts as \<open><\<close> and the result is the one sorted order, which
  the insertion gives as well; with two equal start bytes the scans can run out of the
  vector, and the model stops with \<open>UndefinedBehaviour\<close>.
\<close>

definition sort_edits :: "Edit list \<Rightarrow> Edit list" where
  "sort_edits edits =
     foldl (\<lambda>sorted edit. insort_key (\<lambda>edit. byte (start (range' edit))) edit sorted) [] edits"

definition sort_defined :: "Edit list \<Rightarrow> bool" where
  "sort_defined edits =
     (length edits \<le> 16 \<or> distinct (map (\<lambda>edit. byte (start (range' edit))) edits))"

text \<open>
  \<open>edit_tree\<close> returns the result or the exception together with the \<open>Tree\<close> as it is
  when the call ends; the \<open>swap\<close> at the end installs the new tree and source. The
  \<open>Tree\<close> that comes with \<open>UndefinedBehaviour\<close> means nothing.
\<close>

definition edit_tree ::
  "'t engine \<Rightarrow> Edit list \<Rightarrow> 't Tree \<Rightarrow> 't option \<Rightarrow> (error + EditResult) \<times> 't Tree" where
  "edit_tree eng edits this old_tree =
     (let new_source = source' this
      in if sort_defined edits then
           (let sorted_edits = sort_edits edits
            in case check_edits sorted_edits of
                 Inl e \<Rightarrow> (Inl e, this)
               | Inr _ \<Rightarrow>
                  (case apply_all_edits eng sorted_edits new_source old_tree of
                     Inl e \<Rightarrow> (Inl e, this)
                   | Inr (applied, new_source1, old_tree1) \<Rightarrow>
                      (case parse_string eng old_tree1 new_source1 of
                         Inl e \<Rightarrow> (Inl e, this)
                       | Inr new_tree \<Rightarrow>
                          (Inr \<lparr>changed_ranges =
                                  get_changed_ranges eng old_tree1 (tree new_tree),
                                applied_edits = applied\<rparr>,
                           new_tree))))
         else (Inl UndefinedBehaviour, this))"

text \<open>
  \<open>Tree::edit\<close> moves the \<open>unique_ptr\<close> out of the tree before it calls \<open>edit_tree\<close>, so
  the tree holds \<open>nullptr\<close> during the call.
\<close>

definition Tree_edit :: "'t engine \<Rightarrow> Edit list \<Rightarrow> 't Tree \<Rightarrow> (error + EditResult) \<times> 't Tree" where
  "Tree_edit eng edits this =
     (let old_tree = tree this
      in edit_tree eng edits (this\<lparr>tree := None\<rparr>) old_tree)"

section \<open>Inputs of the examples\<close>

text \<open>A location from its row, column and byte offset, and an edit from its two ends.\<close>

definition loc :: "u32 \<Rightarrow> u32 \<Rightarrow> u32 \<Rightarrow> Location" where
  "loc r c b = \<lparr>point = \<lparr>row = r, column = c\<rparr>, byte = b\<rparr>"

definition replace :: "Location \<Rightarrow> Location \<Rightarrow> string \<Rightarrow> Edit" where
  "replace s e text = \<lparr>range' = \<lparr>start = s, end' = e\<rparr>, replacement = text\<rparr>"

text \<open>
  An engine for the closed examples: its tree carries no information, its parser always
  answers, and it reports no changed ranges.
\<close>

definition trivial_engine :: "unit engine" where
  "trivial_engine =
     \<lparr>ts_tree_edit = (\<lambda>t e. t), ts_parser_parse_string = (\<lambda>t s. Some ()),
      ts_tree_get_changed_ranges = (\<lambda>old new. [])\<rparr>"

section \<open>Range::overlaps\<close>

text \<open>The two calls of \<open>overlaps\<close> unfolded: only byte offsets are compared.\<close>

lemma overlaps_bytes:
  "overlaps a b =
     (if byte (start b) < byte (start a) then byte (start a) < byte (end' b)
      else byte (start b) < byte (end' a))"
  apply (subst overlaps.simps)
  apply (subst overlaps.simps)
  apply (auto simp: Location_greater_def)
  done

lemma overlaps_sym_nonempty:
  "byte (start a) < byte (end' a) \<Longrightarrow> byte (start b) < byte (end' b)
     \<Longrightarrow> overlaps a b = overlaps b a"
  by (auto simp: overlaps_bytes)

lemma overlaps_sym_starts_differ:
  "byte (start a) \<noteq> byte (start b) \<Longrightarrow> overlaps a b = overlaps b a"
  by (auto simp: overlaps_bytes)

lemma overlaps_touching:
  "byte (start a) \<le> byte (end' a) \<Longrightarrow> Location_eq (end' a) (start b) \<Longrightarrow> \<not> overlaps a b"
  by (auto simp: overlaps_bytes Location_eq_def)

lemma overlaps_0_2_2_4:
  "\<not> overlaps \<lparr>start = loc 0 0 0, end' = loc 0 2 2\<rparr> \<lparr>start = loc 0 2 2, end' = loc 0 4 4\<rparr>
   \<and> \<not> overlaps \<lparr>start = loc 0 2 2, end' = loc 0 4 4\<rparr> \<lparr>start = loc 0 0 0, end' = loc 0 2 2\<rparr>"
  by (simp add: overlaps_bytes loc_def)

lemmas eval_defs =
  sort_edits_def sort_defined_def check_edits_def apply_all_edits_def apply_edit_def adjust_edit_def
  update_adjustment_def forbid_zero_sized_edit_def forbid_multiline_edit_def
  Location_eq_def Point_eq_def overlaps_bytes loc_def replace_def Let_def

section \<open>Validation\<close>

lemma check_overlaps_Inr:
  "check_overlaps i edit1 j rest = Inr () \<longleftrightarrow>
     (\<forall>k<length rest. j + k \<noteq> i \<longrightarrow> \<not> overlaps (range' edit1) (range' (rest ! k)))"
proof (induction rest arbitrary: i j)
  case Nil
  show ?case by simp
next
  case (Cons edit2 rest)
  show ?case
    by (auto simp: Cons.IH less_Suc_eq_0_disj nth_Cons')
qed

lemma check_overlaps_error:
  "check_overlaps i edit1 j rest = Inl e \<Longrightarrow> e = OverlappingEditException"
  by (induction rest arbitrary: j) (auto split: if_splits)

lemma forbid_zero_sized_edit_error:
  "forbid_zero_sized_edit e = Inl err \<Longrightarrow> err = ZeroSizedEditException"
  by (simp add: forbid_zero_sized_edit_def split: if_splits)

lemma check_edits_from_Inr:
  "check_edits_from edits i rest = Inr () \<longleftrightarrow>
     (\<forall>k<length rest. forbid_zero_sized_edit (rest ! k) = Inr ()
        \<and> forbid_multiline_edit (rest ! k) = Inr ()
        \<and> check_overlaps (i + k) (rest ! k) 0 edits = Inr ())"
proof (induction rest arbitrary: i)
  case Nil
  show ?case by simp
next
  case (Cons edit1 rest)
  show ?case
    by (auto simp: Cons.IH less_Suc_eq_0_disj split: sum.splits)
qed

text \<open>A batch passes exactly when no edit is zero-sized or multiline and no edit overlaps
  another one (every ordered pair is tried).\<close>

lemma check_edits_Inr:
  "check_edits edits = Inr () \<longleftrightarrow>
     (\<forall>i<length edits. forbid_zero_sized_edit (edits ! i) = Inr ()
        \<and> forbid_multiline_edit (edits ! i) = Inr ()
        \<and> (\<forall>j<length edits. j \<noteq> i \<longrightarrow> \<not> overlaps (range' (edits ! i)) (range' (edits ! j))))"
  by (simp add: check_edits_def check_edits_from_Inr check_overlaps_Inr)

lemma check_edits_from_Multiline:
  "check_edits_from edits i rest = Inl MultilineEditException
     \<Longrightarrow> \<exists>e\<in>set rest. forbid_multiline_edit e \<noteq> Inr ()"
proof (induction rest arbitrary: i)
  case Nil
  then show ?case by simp
next
  case (Cons edit1 rest)
  show ?case
  proof (cases "forbid_multiline_edit edit1 = Inr ()")
    case False
    then show ?thesis by simp
  next
    case True
    with Cons.prems have "check_edits_from edits (Suc i) rest = Inl MultilineEditException"
      by (auto split: sum.splits
               dest: check_overlaps_error forbid_zero_sized_edit_error)
    from Cons.IH [OF this] show ?thesis by simp
  qed
qed

lemma check_edits_from_no_zero_no_overlap:
  "\<forall>k<length rest. forbid_zero_sized_edit (rest ! k) = Inr ()
        \<and> check_overlaps (i + k) (rest ! k) 0 edits = Inr ()
   \<Longrightarrow> check_edits_from edits i rest =
         (if \<exists>e\<in>set rest. forbid_multiline_edit e \<noteq> Inr ()
          then Inl MultilineEditException else Inr ())"
proof (induction rest arbitrary: i)
  case Nil
  show ?case by simp
next
  case (Cons edit1 rest)
  have head: "forbid_zero_sized_edit edit1 = Inr ()" "check_overlaps i edit1 0 edits = Inr ()"
    using Cons.prems by (auto dest: spec [of _ 0])
  have tail: "\<forall>k<length rest. forbid_zero_sized_edit (rest ! k) = Inr ()
        \<and> check_overlaps (Suc i + k) (rest ! k) 0 edits = Inr ()"
    using Cons.prems by (auto dest: spec [of _ "Suc k" for k])
  show ?case
    using head Cons.IH [OF tail]
    by (auto simp: forbid_multiline_edit_def split: sum.splits)
qed

text \<open>The touching ranges \<open>[0,2)\<close> and \<open>[2,4)\<close> pass the check together.\<close>

lemma check_edits_touching:
  "check_edits (sort_edits [replace (loc 0 2 2) (loc 0 4 4) ''b'',
                            replace (loc 0 0 0) (loc 0 2 2) ''a'']) = Inr ()"
  by (simp add: eval_defs)

text \<open>
  Edits that span at least one byte and pass the check start at different bytes: two
  edits with the same start byte would overlap.
\<close>

lemma valid_nonempty_distinct:
  assumes ok: "check_edits edits = Inr ()"
    and ne: "\<forall>e\<in>set edits. byte (start (range' e)) < byte (end' (range' e))"
  shows "distinct (map (\<lambda>edit. byte (start (range' edit))) edits)"
proof -
  have "byte (start (range' (edits ! i))) \<noteq> byte (start (range' (edits ! j)))"
    if "i < length edits" "j < length edits" "i \<noteq> j" for i j
  proof
    assume eq: "byte (start (range' (edits ! i))) = byte (start (range' (edits ! j)))"
    from ne that(1) have "byte (start (range' (edits ! i))) < byte (end' (range' (edits ! i)))"
      by simp
    with eq have "overlaps (range' (edits ! i)) (range' (edits ! j))"
      by (simp add: overlaps_bytes)
    moreover from ok that have "\<not> overlaps (range' (edits ! i)) (range' (edits ! j))"
      by (simp add: check_edits_Inr)
    ultimately show False by simp
  qed
  then show ?thesis
    by (simp add: distinct_conv_nth)
qed

section \<open>Sorting and applying\<close>

text \<open>The insertion from the front is the library's insertion sort of the reversed list.\<close>

lemma sort_edits_sort_key:
  "sort_edits edits = sort_key (\<lambda>edit. byte (start (range' edit))) (rev edits)"
  by (simp add: sort_edits_def sort_key_def foldl_conv_foldr)

lemma mset_sort_edits: "mset (sort_edits edits) = mset edits"
  by (simp add: sort_edits_sort_key)

lemma set_sort_edits: "set (sort_edits edits) = set edits"
  by (simp add: sort_edits_sort_key)

lemma sorted_sort_edits: "sorted (map (\<lambda>edit. byte (start (range' edit))) (sort_edits edits))"
  by (simp add: sort_edits_sort_key)

text \<open>Three edits with the same start byte come out reversed; seventeen equal edits are
  beyond what the sort is defined on.\<close>

lemma sort_edits_ties_reversed:
  "sort_edits [replace (loc 0 0 0) (loc 0 1 0) ''x'', replace (loc 0 0 0) (loc 0 2 0) ''y'',
               replace (loc 0 0 0) (loc 0 3 0) ''z'']
     = [replace (loc 0 0 0) (loc 0 3 0) ''z'', replace (loc 0 0 0) (loc 0 2 0) ''y'',
        replace (loc 0 0 0) (loc 0 1 0) ''x'']"
  by (simp add: sort_edits_def loc_def replace_def)

lemma distinct_replicate_iff: "distinct (replicate n x) = (n \<le> 1)"
proof (cases n)
  case 0
  then show ?thesis by simp
next
  case (Suc m)
  then show ?thesis by (cases m) auto
qed

lemma Tree_edit_seventeen_equal_edits:
  "fst (Tree_edit eng (replicate 17 edit) this) = Inl UndefinedBehaviour"
  by (simp add: Tree_edit_def edit_tree_def sort_defined_def distinct_replicate_iff)

text \<open>Edits that start at pairwise different bytes have one sorted order, in whatever
  order they come.\<close>

lemma sort_edits_permutation:
  assumes perm: "mset edits2 = mset edits1"
    and d: "distinct (map (\<lambda>edit. byte (start (range' edit))) edits1)"
  shows "sort_edits edits2 = sort_edits edits1"
proof -
  let ?key = "\<lambda>edit. byte (start (range' edit))"
  have "inj_on ?key (set edits1)"
    using d by (simp only: distinct_map)
  moreover have "set edits2 = set edits1"
    using perm by (rule mset_eq_setD)
  ultimately have inj: "inj_on ?key (set (rev edits2))"
    by simp
  have ms: "mset (rev edits2) = mset (sort_key ?key (rev edits1))"
    using perm by simp
  have srt: "sorted (map ?key (sort_key ?key (rev edits1)))"
    by simp
  show ?thesis
    unfolding sort_edits_sort_key by (rule sort_key_inj_key_eq [OF ms inj srt])
qed

lemma sort_defined_permutation:
  assumes perm: "mset edits2 = mset edits1"
  shows "sort_defined edits2 = sort_defined edits1"
proof -
  let ?key = "\<lambda>edit. byte (start (range' edit))"
  have "mset (map ?key edits2) = mset (map ?key edits1)"
    using perm by simp
  then have "distinct (map ?key edits2) = distinct (map ?key edits1)"
    by (rule mset_eq_imp_distinct_iff)
  moreover have "length edits2 = length edits1"
    using perm by (rule mset_eq_length)
  ultimately show ?thesis
    by (simp add: sort_defined_def)
qed

text \<open>
  A range is well-formed when it spans at least one byte or its two ends are the same
  location. A batch of well-formed ranges that passes the check has pairwise different
  start bytes.
\<close>

lemma valid_wellformed_distinct:
  assumes ok: "check_edits (sort_edits edits) = Inr ()"
    and wf: "\<forall>e\<in>set edits. byte (start (range' e)) < byte (end' (range' e))
                \<or> Location_eq (start (range' e)) (end' (range' e))"
  shows "distinct (map (\<lambda>edit. byte (start (range' edit))) edits)"
proof -
  let ?key = "\<lambda>edit. byte (start (range' edit))"
  have "byte (start (range' e)) < byte (end' (range' e))" if "e \<in> set (sort_edits edits)" for e
  proof -
    from that obtain i where i: "i < length (sort_edits edits)" "e = sort_edits edits ! i"
      by (auto simp: in_set_conv_nth)
    with ok have "forbid_zero_sized_edit e = Inr ()"
      by (simp add: check_edits_Inr)
    then have "\<not> Location_eq (start (range' e)) (end' (range' e))"
      by (simp add: forbid_zero_sized_edit_def split: if_splits)
    moreover from that have "e \<in> set edits"
      by (simp add: set_sort_edits)
    ultimately show ?thesis
      using wf by blast
  qed
  then have d: "distinct (map ?key (sort_edits edits))"
    using ok by (intro valid_nonempty_distinct) simp_all
  have m: "mset (map ?key (sort_edits edits)) = mset (map ?key edits)"
    by (simp add: mset_sort_edits)
  show ?thesis
    using mset_eq_imp_distinct_iff [OF m] d by blast
qed

text \<open>The loop overwrites \<open>before\<close> with the range it saved ahead of the adjustment.\<close>

lemma apply_all_edits_from_before:
  "apply_all_edits_from eng edits adjustment source t = Inr (applied, source1, t1)
     \<Longrightarrow> map before applied = map range' edits"
proof (induction edits arbitrary: adjustment source t applied source1 t1)
  case Nil
  then show ?case by simp
next
  case (Cons edit rest)
  then show ?case
    by (fastforce simp: Let_def split: sum.splits prod.splits)
qed

text \<open>What a successful call went through, and what an exception leaves behind.\<close>

lemma Tree_edit_Inr:
  "Tree_edit eng edits this = (Inr res, this1) \<Longrightarrow>
     sort_defined edits \<and> check_edits (sort_edits edits) = Inr ()
     \<and> (\<exists>new_source old_tree1.
           apply_all_edits eng (sort_edits edits) (source' this) (tree this)
             = Inr (applied_edits res, new_source, old_tree1)
           \<and> source' this1 = new_source)"
  by (auto simp: Tree_edit_def edit_tree_def Let_def parse_string_def
           split: sum.splits prod.splits option.splits if_splits)

lemma Tree_edit_Inl:
  "fst (Tree_edit eng edits this) = Inl e \<Longrightarrow> e \<noteq> UndefinedBehaviour
     \<Longrightarrow> snd (Tree_edit eng edits this) = this\<lparr>tree := None\<rparr>"
  by (auto simp: Tree_edit_def edit_tree_def Let_def parse_string_def
           split: sum.splits prod.splits option.splits if_splits)

lemma Tree_edit_success:
  assumes "\<forall>old s. ts_parser_parse_string eng old s \<noteq> None"
    and "sort_defined edits"
    and "check_edits (sort_edits edits) = Inr ()"
    and "apply_all_edits eng (sort_edits edits) (source' this) (tree this)
           = Inr (applied, new_source, t1)"
  shows "\<exists>cr t2. Tree_edit eng edits this =
           (Inr \<lparr>changed_ranges = cr, applied_edits = applied\<rparr>,
            \<lparr>tree = Some t2, source' = new_source\<rparr>)"
proof -
  from assms(1) obtain t2 where "ts_parser_parse_string eng t1 new_source = Some t2"
    by fastforce
  with assms(2,3,4) show ?thesis
    by (simp add: Tree_edit_def edit_tree_def parse_string_def)
qed

text \<open>Edits that start at pairwise different bytes give the same call in every order.\<close>

lemma Tree_edit_permutation:
  assumes "mset edits2 = mset edits1"
    and "distinct (map (\<lambda>edit. byte (start (range' edit))) edits1)"
  shows "Tree_edit eng edits2 this = Tree_edit eng edits1 this"
  using sort_edits_permutation [OF assms] sort_defined_permutation [OF assms(1)]
  by (simp add: Tree_edit_def edit_tree_def)

lemma Tree_edit_before:
  assumes "Tree_edit eng edits this = (Inr res, this1)"
  shows "map before (applied_edits res) = map range' (sort_edits edits)"
proof -
  from Tree_edit_Inr [OF assms] obtain new_source old_tree1 where
    "apply_all_edits eng (sort_edits edits) (source' this) (tree this)
       = Inr (applied_edits res, new_source, old_tree1)"
    by blast
  then show ?thesis
    unfolding apply_all_edits_def by (rule apply_all_edits_from_before)
qed

text \<open>
  The adjustment after an edit has been applied: the byte change is taken between the
  new end and the end of the range as the caller gave it, so it contains the old
  \<open>cumulative_byte_change\<close>, which is then added once more; \<open>last_width_change\<close> is
  the change of this edit alone.
\<close>

lemma word_of_int_uint_plus_diff:
  "(word_of_int (uint (x :: u32) + (int n - int (unat (y :: u32)))) :: u32) = x + of_nat n - y"
  by (simp add: wi_hom_syms)

lemma update_adjustment_after_apply:
  assumes "apply_edit eng (adjust_edit edit adj) t src = Inr (applied, t1, src1)"
  shows "cumulative_byte_change (update_adjustment adj (applied\<lparr>before := range' edit\<rparr>) p)
           = 2 * cumulative_byte_change adj
             + (of_nat (length (replacement edit))
                - (byte (end' (range' edit)) - byte (start (range' edit))))"
    and "last_width_change (update_adjustment adj (applied\<lparr>before := range' edit\<rparr>) p)
           = of_nat (length (replacement edit))
             - (byte (end' (range' edit)) - byte (start (range' edit)))"
  using assms
  by (auto simp: apply_edit_def adjust_edit_def update_adjustment_def Let_def
        word_of_int_uint_plus_diff split: if_splits)

section \<open>Runs of the examples\<close>

text \<open>Scenario B of the unit tests, the two literals of \<open>1 + 2\<close> replaced.\<close>

lemma scenario_B_apply:
  "\<exists>t1. apply_all_edits eng
          [replace (loc 0 0 0) (loc 0 1 1) ''15'', replace (loc 0 4 4) (loc 0 5 5) ''7'']
          ''1 + 2'' t
     = Inr ([\<lparr>before = \<lparr>start = loc 0 0 0, end' = loc 0 1 1\<rparr>,
              after = \<lparr>start = loc 0 0 0, end' = loc 0 2 2\<rparr>,
              old_source = ''1'', applied_replacement = ''15''\<rparr>,
             \<lparr>before = \<lparr>start = loc 0 4 4, end' = loc 0 5 5\<rparr>,
              after = \<lparr>start = loc 0 5 5, end' = loc 0 6 6\<rparr>,
              old_source = ''2'', applied_replacement = ''7''\<rparr>], ''15 + 7'', t1)"
  by (simp add: eval_defs)

lemma scenario_B_sorted:
  "sort_edits [replace (loc 0 0 0) (loc 0 1 1) ''15'', replace (loc 0 4 4) (loc 0 5 5) ''7'']
     = [replace (loc 0 0 0) (loc 0 1 1) ''15'', replace (loc 0 4 4) (loc 0 5 5) ''7'']"
  "sort_edits [replace (loc 0 4 4) (loc 0 5 5) ''7'', replace (loc 0 0 0) (loc 0 1 1) ''15'']
     = [replace (loc 0 0 0) (loc 0 1 1) ''15'', replace (loc 0 4 4) (loc 0 5 5) ''7'']"
  by (simp_all add: eval_defs)

lemma scenario_B_checked:
  "check_edits
     [replace (loc 0 0 0) (loc 0 1 1) ''15'', replace (loc 0 4 4) (loc 0 5 5) ''7''] = Inr ()"
  by (simp add: eval_defs)

lemma scenario_B_trivial_engine:
  "Tree_edit trivial_engine
     [replace (loc 0 4 4) (loc 0 5 5) ''7'', replace (loc 0 0 0) (loc 0 1 1) ''15'']
     \<lparr>tree = Some (), source' = ''1 + 2''\<rparr>
   = (Inr \<lparr>changed_ranges = [],
           applied_edits =
             [\<lparr>before = \<lparr>start = loc 0 0 0, end' = loc 0 1 1\<rparr>,
               after = \<lparr>start = loc 0 0 0, end' = loc 0 2 2\<rparr>,
               old_source = ''1'', applied_replacement = ''15''\<rparr>,
              \<lparr>before = \<lparr>start = loc 0 4 4, end' = loc 0 5 5\<rparr>,
               after = \<lparr>start = loc 0 5 5, end' = loc 0 6 6\<rparr>,
               old_source = ''2'', applied_replacement = ''7''\<rparr>]\<rparr>,
      \<lparr>tree = Some (), source' = ''15 + 7''\<rparr>)"
  by (simp add: Tree_edit_def edit_tree_def parse_string_def get_changed_ranges_def
        trivial_engine_def eval_defs)

section \<open>Properties of the batch edit\<close>

subsection \<open>Validation failures\<close>

text \<open>
  C1. A batch that fails validation leaves the source text as it was, but not the tree:
  \<open>Tree::edit\<close> has moved the \<open>unique_ptr\<close> out before \<open>edit_tree\<close> validates, so
  after the exception the tree is \<open>nullptr\<close>. Here on the duplicate edit of the unit
  test \<open>trying to apply overlapping edits\<close>, for every engine and every tree \<open>t\<close>.
\<close>

theorem Tree_edit_failed_validation_loses_tree:
  "Tree_edit eng
     [replace (loc 0 0 0) (loc 0 2 2) ''33'', replace (loc 0 0 0) (loc 0 2 2) ''33'']
     \<lparr>tree = Some t, source' = ''11 + 2''\<rparr>
   = (Inl OverlappingEditException, \<lparr>tree = None, source' = ''11 + 2''\<rparr>)"
  by (simp add: Tree_edit_def edit_tree_def eval_defs)

text \<open>
  C8. \<open>MultilineEditException\<close> is raised only if some edit spans two rows or has a line
  break in its replacement; a batch with such an edit is always rejected; and it is
  rejected with \<open>MultilineEditException\<close> when no edit is zero-sized and no two edits
  overlap. (Each edit is tested for zero size first, then for line breaks, then for
  overlaps, and the first exception ends the check.)
\<close>

theorem multiline_signalled:
  "(check_edits edits = Inl MultilineEditException
      \<longrightarrow> (\<exists>e\<in>set edits. row (point (start (range' e))) \<noteq> row (point (end' (range' e)))
                           \<or> CHR 0x0A \<in> set (replacement e)))
   \<and> ((\<exists>e\<in>set edits. row (point (start (range' e))) \<noteq> row (point (end' (range' e)))
                           \<or> CHR 0x0A \<in> set (replacement e))
      \<longrightarrow> (\<exists>err. check_edits edits = Inl err))
   \<and> ((\<forall>e\<in>set edits. \<not> Location_eq (start (range' e)) (end' (range' e)))
       \<and> (\<forall>i<length edits. \<forall>j<length edits.
             j \<noteq> i \<longrightarrow> \<not> overlaps (range' (edits ! i)) (range' (edits ! j)))
      \<longrightarrow> (check_edits edits = Inl MultilineEditException
            \<longleftrightarrow> (\<exists>e\<in>set edits. row (point (start (range' e))) \<noteq> row (point (end' (range' e)))
                           \<or> CHR 0x0A \<in> set (replacement e))))"
proof (intro conjI impI)
  assume "check_edits edits = Inl MultilineEditException"
  then show "\<exists>e\<in>set edits. row (point (start (range' e))) \<noteq> row (point (end' (range' e)))
                           \<or> CHR 0x0A \<in> set (replacement e)"
    unfolding check_edits_def
    by (auto dest!: check_edits_from_Multiline simp: forbid_multiline_edit_def split: if_splits)
next
  assume "\<exists>e\<in>set edits. row (point (start (range' e))) \<noteq> row (point (end' (range' e)))
                           \<or> CHR 0x0A \<in> set (replacement e)"
  then obtain e where "e \<in> set edits" "forbid_multiline_edit e \<noteq> Inr ()"
    by (auto simp: forbid_multiline_edit_def)
  then obtain i where "i < length edits" "forbid_multiline_edit (edits ! i) \<noteq> Inr ()"
    by (auto simp: in_set_conv_nth)
  then have "check_edits edits \<noteq> Inr ()"
    by (auto simp: check_edits_Inr)
  then show "\<exists>err. check_edits edits = Inl err"
    by (cases "check_edits edits") auto
next
  assume "(\<forall>e\<in>set edits. \<not> Location_eq (start (range' e)) (end' (range' e)))
       \<and> (\<forall>i<length edits. \<forall>j<length edits.
             j \<noteq> i \<longrightarrow> \<not> overlaps (range' (edits ! i)) (range' (edits ! j)))"
  then have "\<forall>k<length edits. forbid_zero_sized_edit (edits ! k) = Inr ()
        \<and> check_overlaps (0 + k) (edits ! k) 0 edits = Inr ()"
    by (auto simp: forbid_zero_sized_edit_def check_overlaps_Inr)
  from check_edits_from_no_zero_no_overlap [OF this]
  show "check_edits edits = Inl MultilineEditException
            \<longleftrightarrow> (\<exists>e\<in>set edits. row (point (start (range' e))) \<noteq> row (point (end' (range' e)))
                           \<or> CHR 0x0A \<in> set (replacement e))"
    by (auto simp: check_edits_def forbid_multiline_edit_def split: if_splits)
qed

text \<open>The multiline edit of the unit tests is rejected with \<open>MultilineEditException\<close>.\<close>

theorem multiline_signalled_witness:
  "check_edits [replace (loc 0 0 0) (loc 0 1 1) ''3 +\<newline> 4''] = Inl MultilineEditException"
  using multiline_signalled [of "[replace (loc 0 0 0) (loc 0 1 1) ''3 +\<newline> 4'']"]
  by (simp add: overlaps_bytes Location_eq_def Point_eq_def loc_def replace_def)

text \<open>
  A zero-sized edit whose replacement holds a line break is rejected with
  \<open>ZeroSizedEditException\<close>, not with \<open>MultilineEditException\<close>.
\<close>

theorem multiline_not_signalled_for_zero_sized_edit:
  "check_edits (sort_edits [replace (loc 0 0 0) (loc 0 0 0) ''3 +\<newline> 4''])
     = Inl ZeroSizedEditException
   \<and> CHR 0x0A \<in> set (replacement (replace (loc 0 0 0) (loc 0 0 0) ''3 +\<newline> 4''))"
  by (simp add: eval_defs)


text \<open>
  C7. \<open>Range::overlaps\<close> is not symmetric: the empty range at byte 3 does not overlap
  the range of bytes 3 to 5 that starts at the same place, but that range overlaps the
  empty one. With equal starts no exchange takes place and the answer is whether the
  receiver is non-empty.
\<close>

theorem overlaps_asymmetric_at_empty_range:
  "\<not> overlaps \<lparr>start = loc 0 3 3, end' = loc 0 3 3\<rparr> \<lparr>start = loc 0 3 3, end' = loc 0 5 5\<rparr>
   \<and> overlaps \<lparr>start = loc 0 3 3, end' = loc 0 5 5\<rparr> \<lparr>start = loc 0 3 3, end' = loc 0 3 3\<rparr>"
  by (simp add: overlaps_bytes loc_def)

text \<open>
  C10. \<open>Range::overlaps\<close> depends on the byte offsets only: ranges that agree pairwise
  in their start and end bytes give the same answer, whatever their rows and columns.
\<close>

theorem overlaps_only_bytes:
  assumes "byte (start a) = byte (start a')" and "byte (end' a) = byte (end' a')"
    and "byte (start b) = byte (start b')" and "byte (end' b) = byte (end' b')"
  shows "overlaps a b = overlaps a' b'"
  using assms by (simp add: overlaps_bytes)

theorem overlaps_only_bytes_witness:
  "overlaps \<lparr>start = loc 0 0 0, end' = loc 0 3 3\<rparr> \<lparr>start = loc 0 2 2, end' = loc 0 4 4\<rparr>
     = overlaps \<lparr>start = loc 7 1 0, end' = loc 9 5 3\<rparr> \<lparr>start = loc 4 4 2, end' = loc 2 8 4\<rparr>"
  by (rule overlaps_only_bytes) (simp_all add: loc_def)

subsection \<open>The applied edits\<close>

text \<open>
  C9. In every successful call the \<open>before\<close> fields of the returned applied edits are
  the ranges of the caller's edits as supplied, in the sorted order: the adjustment of
  the coordinates does not reach them.
\<close>

theorem before_is_callers_range:
  assumes "Tree_edit eng edits this = (Inr res, this1)"
  shows "map before (applied_edits res) = map range' (sort_edits edits)
         \<and> mset (map before (applied_edits res)) = mset (map range' edits)"
proof -
  have m: "map before (applied_edits res) = map range' (sort_edits edits)"
    using assms by (rule Tree_edit_before)
  have "mset (map range' (sort_edits edits)) = mset (map range' edits)"
    by (simp add: mset_sort_edits)
  with m show ?thesis by simp
qed

theorem before_is_callers_range_witness:
  "map before (applied_edits (projr (fst (Tree_edit trivial_engine
      [replace (loc 0 4 4) (loc 0 5 5) ''7'', replace (loc 0 0 0) (loc 0 1 1) ''15'']
      \<lparr>tree = Some (), source' = ''1 + 2''\<rparr>))))
   = [\<lparr>start = loc 0 0 0, end' = loc 0 1 1\<rparr>, \<lparr>start = loc 0 4 4, end' = loc 0 5 5\<rparr>]"
  using before_is_callers_range [OF scenario_B_trivial_engine]
  by (simp add: scenario_B_trivial_engine scenario_B_sorted)

text \<open>
  C5. On the buffer \<open>1 + 2\<close>, replacing bytes \<open>[0,1)\<close> by \<open>15\<close> and bytes \<open>[4,5)\<close> by
  \<open>7\<close>, in either order of submission, gives the buffer \<open>15 + 7\<close>; the second applied
  edit has \<open>before\<close> at bytes 4 to 5 and \<open>after\<close> at bytes 5 to 6. This holds for every
  engine whose parser answers.
\<close>

theorem scenario_B_both_orders:
  assumes "\<forall>old s. ts_parser_parse_string eng old s \<noteq> None"
  shows "(\<exists>cr t1. Tree_edit eng
            [replace (loc 0 0 0) (loc 0 1 1) ''15'', replace (loc 0 4 4) (loc 0 5 5) ''7'']
            \<lparr>tree = t, source' = ''1 + 2''\<rparr>
          = (Inr \<lparr>changed_ranges = cr,
                  applied_edits =
                    [\<lparr>before = \<lparr>start = loc 0 0 0, end' = loc 0 1 1\<rparr>,
                      after = \<lparr>start = loc 0 0 0, end' = loc 0 2 2\<rparr>,
                      old_source = ''1'', applied_replacement = ''15''\<rparr>,
                     \<lparr>before = \<lparr>start = loc 0 4 4, end' = loc 0 5 5\<rparr>,
                      after = \<lparr>start = loc 0 5 5, end' = loc 0 6 6\<rparr>,
                      old_source = ''2'', applied_replacement = ''7''\<rparr>]\<rparr>,
             \<lparr>tree = Some t1, source' = ''15 + 7''\<rparr>))
       \<and> (\<exists>cr t1. Tree_edit eng
            [replace (loc 0 4 4) (loc 0 5 5) ''7'', replace (loc 0 0 0) (loc 0 1 1) ''15'']
            \<lparr>tree = t, source' = ''1 + 2''\<rparr>
          = (Inr \<lparr>changed_ranges = cr,
                  applied_edits =
                    [\<lparr>before = \<lparr>start = loc 0 0 0, end' = loc 0 1 1\<rparr>,
                      after = \<lparr>start = loc 0 0 0, end' = loc 0 2 2\<rparr>,
                      old_source = ''1'', applied_replacement = ''15''\<rparr>,
                     \<lparr>before = \<lparr>start = loc 0 4 4, end' = loc 0 5 5\<rparr>,
                      after = \<lparr>start = loc 0 5 5, end' = loc 0 6 6\<rparr>,
                      old_source = ''2'', applied_replacement = ''7''\<rparr>]\<rparr>,
             \<lparr>tree = Some t1, source' = ''15 + 7''\<rparr>))"
    (is "?in_order \<and> ?reversed")
proof -
  obtain t1 where run: "apply_all_edits eng
          [replace (loc 0 0 0) (loc 0 1 1) ''15'', replace (loc 0 4 4) (loc 0 5 5) ''7'']
          ''1 + 2'' t
     = Inr ([\<lparr>before = \<lparr>start = loc 0 0 0, end' = loc 0 1 1\<rparr>,
              after = \<lparr>start = loc 0 0 0, end' = loc 0 2 2\<rparr>,
              old_source = ''1'', applied_replacement = ''15''\<rparr>,
             \<lparr>before = \<lparr>start = loc 0 4 4, end' = loc 0 5 5\<rparr>,
              after = \<lparr>start = loc 0 5 5, end' = loc 0 6 6\<rparr>,
              old_source = ''2'', applied_replacement = ''7''\<rparr>], ''15 + 7'', t1)"
    using scenario_B_apply [of eng t] by blast
  have ?in_order
    by (rule Tree_edit_success [OF assms])
       (simp_all add: sort_defined_def scenario_B_sorted scenario_B_checked run)
  moreover have ?reversed
    by (rule Tree_edit_success [OF assms])
       (simp_all add: sort_defined_def scenario_B_sorted scenario_B_checked run)
  ultimately show ?thesis by (rule conjI)
qed

theorem scenario_B_both_orders_witness:
  "source' (snd (Tree_edit trivial_engine
      [replace (loc 0 4 4) (loc 0 5 5) ''7'', replace (loc 0 0 0) (loc 0 1 1) ''15'']
      \<lparr>tree = Some (), source' = ''1 + 2''\<rparr>)) = ''15 + 7''"
  using scenario_B_both_orders [of trivial_engine "Some ()"]
  by (auto simp: trivial_engine_def)

text \<open>
  C2. Three one-byte edits on three rows of the buffer of the three lines \<open>1\<close>, \<open>2\<close>,
  \<open>3\<close>: the first grows its row by one byte, the second keeps its length. The third
  edit, at bytes 4 to 5, is applied and reported at bytes 6 to 7, two bytes on and not
  the one byte of the earlier edits: its replacement lands behind the \<open>3\<close> it was to
  replace. This holds for every engine whose parser answers.
\<close>

theorem third_edit_on_other_row_shifted_twice:
  assumes "\<forall>old s. ts_parser_parse_string eng old s \<noteq> None"
  shows "\<exists>cr t1. Tree_edit eng
            [replace (loc 0 0 0) (loc 0 1 1) ''15'', replace (loc 1 0 2) (loc 1 1 3) ''7'',
             replace (loc 2 0 4) (loc 2 1 5) ''9'']
            \<lparr>tree = t, source' = ''1\<newline>2\<newline>3''\<rparr>
          = (Inr \<lparr>changed_ranges = cr,
                  applied_edits =
                    [\<lparr>before = \<lparr>start = loc 0 0 0, end' = loc 0 1 1\<rparr>,
                      after = \<lparr>start = loc 0 0 0, end' = loc 0 2 2\<rparr>,
                      old_source = ''1'', applied_replacement = ''15''\<rparr>,
                     \<lparr>before = \<lparr>start = loc 1 0 2, end' = loc 1 1 3\<rparr>,
                      after = \<lparr>start = loc 1 0 3, end' = loc 1 1 4\<rparr>,
                      old_source = ''2'', applied_replacement = ''7''\<rparr>,
                     \<lparr>before = \<lparr>start = loc 2 0 4, end' = loc 2 1 5\<rparr>,
                      after = \<lparr>start = loc 2 0 6, end' = loc 2 1 7\<rparr>,
                      old_source = [], applied_replacement = ''9''\<rparr>]\<rparr>,
             \<lparr>tree = Some t1, source' = ''15\<newline>7\<newline>39''\<rparr>)"
proof -
  let ?edits = "[replace (loc 0 0 0) (loc 0 1 1) ''15'', replace (loc 1 0 2) (loc 1 1 3) ''7'',
                 replace (loc 2 0 4) (loc 2 1 5) ''9'']"
  let ?applied =
    "[\<lparr>before = \<lparr>start = loc 0 0 0, end' = loc 0 1 1\<rparr>,
       after = \<lparr>start = loc 0 0 0, end' = loc 0 2 2\<rparr>,
       old_source = ''1'', applied_replacement = ''15''\<rparr>,
      \<lparr>before = \<lparr>start = loc 1 0 2, end' = loc 1 1 3\<rparr>,
       after = \<lparr>start = loc 1 0 3, end' = loc 1 1 4\<rparr>,
       old_source = ''2'', applied_replacement = ''7''\<rparr>,
      \<lparr>before = \<lparr>start = loc 2 0 4, end' = loc 2 1 5\<rparr>,
       after = \<lparr>start = loc 2 0 6, end' = loc 2 1 7\<rparr>,
       old_source = [], applied_replacement = ''9''\<rparr>]"
  have sorted: "sort_edits ?edits = ?edits"
    by (simp add: eval_defs)
  have checked: "check_edits ?edits = Inr ()"
    by (simp add: eval_defs)
  have "\<exists>t1. apply_all_edits eng ?edits ''1\<newline>2\<newline>3'' t
          = Inr (?applied, ''15\<newline>7\<newline>39'', t1)"
    by (simp add: eval_defs)
  then obtain t1 where run: "apply_all_edits eng ?edits ''1\<newline>2\<newline>3'' t
          = Inr (?applied, ''15\<newline>7\<newline>39'', t1)"
    by blast
  show ?thesis
    by (rule Tree_edit_success [OF assms]) (simp_all add: sort_defined_def sorted checked run)
qed

theorem third_edit_on_other_row_shifted_twice_witness:
  "source' (snd (Tree_edit trivial_engine
      [replace (loc 0 0 0) (loc 0 1 1) ''15'', replace (loc 1 0 2) (loc 1 1 3) ''7'',
       replace (loc 2 0 4) (loc 2 1 5) ''9'']
      \<lparr>tree = Some (), source' = ''1\<newline>2\<newline>3''\<rparr>)) = ''15\<newline>7\<newline>39''"
  using third_edit_on_other_row_shifted_twice [of trivial_engine "Some ()"]
  by (auto simp: trivial_engine_def)

text \<open>
  C3. Three one-byte edits on the one row of the buffer \<open>1 + 2 + 3\<close>: the first grows
  the row by one column, the second keeps its width. The third edit, at column 8, is
  reported at column 8 still: only the width change of the edit just before it is
  applied, and that one is zero. This holds for every engine whose parser answers.
\<close>

theorem third_edit_on_same_row_keeps_column:
  assumes "\<forall>old s. ts_parser_parse_string eng old s \<noteq> None"
  shows "\<exists>cr t1. Tree_edit eng
            [replace (loc 0 0 0) (loc 0 1 1) ''15'', replace (loc 0 4 4) (loc 0 5 5) ''7'',
             replace (loc 0 8 8) (loc 0 9 9) ''9'']
            \<lparr>tree = t, source' = ''1 + 2 + 3''\<rparr>
          = (Inr \<lparr>changed_ranges = cr,
                  applied_edits =
                    [\<lparr>before = \<lparr>start = loc 0 0 0, end' = loc 0 1 1\<rparr>,
                      after = \<lparr>start = loc 0 0 0, end' = loc 0 2 2\<rparr>,
                      old_source = ''1'', applied_replacement = ''15''\<rparr>,
                     \<lparr>before = \<lparr>start = loc 0 4 4, end' = loc 0 5 5\<rparr>,
                      after = \<lparr>start = loc 0 5 5, end' = loc 0 6 6\<rparr>,
                      old_source = ''2'', applied_replacement = ''7''\<rparr>,
                     \<lparr>before = \<lparr>start = loc 0 8 8, end' = loc 0 9 9\<rparr>,
                      after = \<lparr>start = loc 0 8 10, end' = loc 0 9 11\<rparr>,
                      old_source = [], applied_replacement = ''9''\<rparr>]\<rparr>,
             \<lparr>tree = Some t1, source' = ''15 + 7 + 39''\<rparr>)"
proof -
  let ?edits = "[replace (loc 0 0 0) (loc 0 1 1) ''15'', replace (loc 0 4 4) (loc 0 5 5) ''7'',
                 replace (loc 0 8 8) (loc 0 9 9) ''9'']"
  let ?applied =
    "[\<lparr>before = \<lparr>start = loc 0 0 0, end' = loc 0 1 1\<rparr>,
       after = \<lparr>start = loc 0 0 0, end' = loc 0 2 2\<rparr>,
       old_source = ''1'', applied_replacement = ''15''\<rparr>,
      \<lparr>before = \<lparr>start = loc 0 4 4, end' = loc 0 5 5\<rparr>,
       after = \<lparr>start = loc 0 5 5, end' = loc 0 6 6\<rparr>,
       old_source = ''2'', applied_replacement = ''7''\<rparr>,
      \<lparr>before = \<lparr>start = loc 0 8 8, end' = loc 0 9 9\<rparr>,
       after = \<lparr>start = loc 0 8 10, end' = loc 0 9 11\<rparr>,
       old_source = [], applied_replacement = ''9''\<rparr>]"
  have sorted: "sort_edits ?edits = ?edits"
    by (simp add: eval_defs)
  have checked: "check_edits ?edits = Inr ()"
    by (simp add: eval_defs)
  have "\<exists>t1. apply_all_edits eng ?edits ''1 + 2 + 3'' t = Inr (?applied, ''15 + 7 + 39'', t1)"
    by (simp add: eval_defs)
  then obtain t1 where
    run: "apply_all_edits eng ?edits ''1 + 2 + 3'' t = Inr (?applied, ''15 + 7 + 39'', t1)"
    by blast
  show ?thesis
    by (rule Tree_edit_success [OF assms]) (simp_all add: sort_defined_def sorted checked run)
qed

theorem third_edit_on_same_row_keeps_column_witness:
  "source' (snd (Tree_edit trivial_engine
      [replace (loc 0 0 0) (loc 0 1 1) ''15'', replace (loc 0 4 4) (loc 0 5 5) ''7'',
       replace (loc 0 8 8) (loc 0 9 9) ''9'']
      \<lparr>tree = Some (), source' = ''1 + 2 + 3''\<rparr>)) = ''15 + 7 + 39''"
  using third_edit_on_same_row_keeps_column [of trivial_engine "Some ()"]
  by (auto simp: trivial_engine_def)

subsection \<open>The order of the edits\<close>

text \<open>
  C4. For a batch that passes the check and whose ranges are well-formed (each spans at
  least one byte, or its two ends are the same location, which the check then
  rejects), so for every valid batch of non-zero-sized single-line edits, every
  permutation of the submitted list gives the same final source, and indeed the same
  result of the call.
\<close>

theorem final_text_permutation_invariant:
  assumes "mset edits2 = mset edits1"
    and "check_edits (sort_edits edits1) = Inr ()"
    and "\<forall>e\<in>set edits1. byte (start (range' e)) < byte (end' (range' e))
                \<or> Location_eq (start (range' e)) (end' (range' e))"
  shows "source' (snd (Tree_edit eng edits2 this)) = source' (snd (Tree_edit eng edits1 this))
         \<and> Tree_edit eng edits2 this = Tree_edit eng edits1 this"
proof -
  have "distinct (map (\<lambda>edit. byte (start (range' edit))) edits1)"
    using assms(2,3) by (rule valid_wellformed_distinct)
  with assms(1) have "Tree_edit eng edits2 this = Tree_edit eng edits1 this"
    by (rule Tree_edit_permutation)
  then show ?thesis by simp
qed

theorem final_text_permutation_invariant_witness:
  "source' (snd (Tree_edit trivial_engine
      [replace (loc 0 4 4) (loc 0 5 5) ''7'', replace (loc 0 0 0) (loc 0 1 1) ''15'']
      \<lparr>tree = Some (), source' = ''1 + 2''\<rparr>))
   = source' (snd (Tree_edit trivial_engine
      [replace (loc 0 0 0) (loc 0 1 1) ''15'', replace (loc 0 4 4) (loc 0 5 5) ''7'']
      \<lparr>tree = Some (), source' = ''1 + 2''\<rparr>))"
  by (rule final_text_permutation_invariant [THEN conjunct1])
     (simp_all add: scenario_B_sorted scenario_B_checked, simp_all add: loc_def replace_def)

text \<open>
  The applied edits of a successful call on well-formed ranges come in strictly
  ascending order of their original start bytes.
\<close>

lemma applied_edits_strictly_ordered:
  assumes run: "Tree_edit eng edits this = (Inr res, this1)"
    and wf: "\<forall>e\<in>set edits. byte (start (range' e)) < byte (end' (range' e))
                \<or> Location_eq (start (range' e)) (end' (range' e))"
  shows "\<forall>i j. i < j \<and> j < length (applied_edits res) \<longrightarrow>
            byte (start (before (applied_edits res ! i)))
              < byte (start (before (applied_edits res ! j)))"
proof -
  let ?key = "\<lambda>edit. byte (start (range' edit))"
  let ?bs = "map (\<lambda>a. byte (start (before a))) (applied_edits res)"
  have "map before (applied_edits res) = map range' (sort_edits edits)"
    using run by (rule Tree_edit_before)
  then have "map (\<lambda>r. byte (start r)) (map before (applied_edits res))
               = map (\<lambda>r. byte (start r)) (map range' (sort_edits edits))"
    by simp
  then have bs: "?bs = map ?key (sort_edits edits)"
    by (simp add: comp_def)
  have srt: "sorted ?bs"
    unfolding bs by (rule sorted_sort_edits)
  from Tree_edit_Inr [OF run] have "check_edits (sort_edits edits) = Inr ()"
    by simp
  then have "distinct (map ?key edits)"
    using wf by (rule valid_wellformed_distinct)
  moreover have "mset (map ?key (sort_edits edits)) = mset (map ?key edits)"
    by (simp add: mset_sort_edits)
  ultimately have "distinct (map ?key (sort_edits edits))"
    using mset_eq_imp_distinct_iff by blast
  with srt have "sorted_wrt (<) ?bs"
    by (simp add: strict_sorted_iff bs)
  then show ?thesis
    by (auto simp: sorted_wrt_iff_nth_less)
qed

text \<open>
  C6. Two edits at byte 0 of the buffer \<open>ab\<close> that remove no byte, their ends differing
  from their start in the column only. \<open>_forbid_zero_sized_edit\<close> compares whole
  locations and lets both pass, they do not overlap, and the call succeeds: the two
  applied edits have the same original start byte, so the returned list is not in
  strictly ascending order. This holds for every engine whose parser answers.
\<close>

theorem zero_byte_edits_applied_with_equal_start_bytes:
  assumes "\<forall>old s. ts_parser_parse_string eng old s \<noteq> None"
  shows "\<exists>cr t1. Tree_edit eng
            [replace (loc 0 0 0) (loc 0 1 0) ''x'', replace (loc 0 0 0) (loc 0 2 0) ''y'']
            \<lparr>tree = t, source' = ''ab''\<rparr>
          = (Inr \<lparr>changed_ranges = cr,
                  applied_edits =
                    [\<lparr>before = \<lparr>start = loc 0 0 0, end' = loc 0 2 0\<rparr>,
                      after = \<lparr>start = loc 0 0 0, end' = loc 0 3 1\<rparr>,
                      old_source = [], applied_replacement = ''y''\<rparr>,
                     \<lparr>before = \<lparr>start = loc 0 0 0, end' = loc 0 1 0\<rparr>,
                      after = \<lparr>start = loc 0 1 1, end' = loc 0 3 2\<rparr>,
                      old_source = [], applied_replacement = ''x''\<rparr>]\<rparr>,
             \<lparr>tree = Some t1, source' = ''yxab''\<rparr>)"
proof -
  let ?edits = "[replace (loc 0 0 0) (loc 0 1 0) ''x'', replace (loc 0 0 0) (loc 0 2 0) ''y'']"
  let ?sorted = "[replace (loc 0 0 0) (loc 0 2 0) ''y'', replace (loc 0 0 0) (loc 0 1 0) ''x'']"
  let ?applied =
    "[\<lparr>before = \<lparr>start = loc 0 0 0, end' = loc 0 2 0\<rparr>,
       after = \<lparr>start = loc 0 0 0, end' = loc 0 3 1\<rparr>,
       old_source = [], applied_replacement = ''y''\<rparr>,
      \<lparr>before = \<lparr>start = loc 0 0 0, end' = loc 0 1 0\<rparr>,
       after = \<lparr>start = loc 0 1 1, end' = loc 0 3 2\<rparr>,
       old_source = [], applied_replacement = ''x''\<rparr>]"
  have defined: "sort_defined ?edits"
    by (simp add: sort_defined_def)
  have sorted: "sort_edits ?edits = ?sorted"
    by (simp add: eval_defs)
  have checked: "check_edits ?sorted = Inr ()"
    by (simp add: eval_defs)
  have "\<exists>t1. apply_all_edits eng ?sorted ''ab'' t = Inr (?applied, ''yxab'', t1)"
    by (simp add: eval_defs)
  then obtain t1 where run: "apply_all_edits eng ?sorted ''ab'' t = Inr (?applied, ''yxab'', t1)"
    by blast
  show ?thesis
    by (rule Tree_edit_success [OF assms defined]) (simp_all add: sorted checked run)
qed

theorem zero_byte_edits_applied_with_equal_start_bytes_witness:
  "\<not> isl (fst (Tree_edit trivial_engine
        [replace (loc 0 0 0) (loc 0 1 0) ''x'', replace (loc 0 0 0) (loc 0 2 0) ''y'']
        \<lparr>tree = Some (), source' = ''ab''\<rparr>))
   \<and> length (applied_edits (projr (fst (Tree_edit trivial_engine
        [replace (loc 0 0 0) (loc 0 1 0) ''x'', replace (loc 0 0 0) (loc 0 2 0) ''y'']
        \<lparr>tree = Some (), source' = ''ab''\<rparr>)))) = 2
   \<and> \<not> byte (start (before (applied_edits (projr (fst (Tree_edit trivial_engine
        [replace (loc 0 0 0) (loc 0 1 0) ''x'', replace (loc 0 0 0) (loc 0 2 0) ''y'']
        \<lparr>tree = Some (), source' = ''ab''\<rparr>))) ! 0)))
       < byte (start (before (applied_edits (projr (fst (Tree_edit trivial_engine
        [replace (loc 0 0 0) (loc 0 1 0) ''x'', replace (loc 0 0 0) (loc 0 2 0) ''y'']
        \<lparr>tree = Some (), source' = ''ab''\<rparr>))) ! 1)))"
  using zero_byte_edits_applied_with_equal_start_bytes [of trivial_engine "Some ()"]
  by (auto simp: trivial_engine_def loc_def)

end
